theory Spec2Isabelle
  imports Complex_Main "HOL-Library.Word" "HOL-Library.Sublist"
begin

section \<open>Strings of the JavaScript runtime\<close>

text \<open>
  A JavaScript string is a sequence of 16-bit code units. The literals of the source
  are ASCII; \<open>lit\<close> turns a literal into its code units.
\<close>

type_synonym jschar = "16 word"
type_synonym jsstring = "jschar list"

definition lit :: "string \<Rightarrow> jsstring" where
  "lit s = map of_char s"

text \<open>
  \<^verbatim>\<open>String.prototype.trim\<close> strips the code units that ECMAScript calls WhiteSpace
  (TAB, VT, FF, ZWNBSP and the space separators of Unicode) or LineTerminator
  (LF, CR, LS, PS) from both ends.
\<close>

definition isWhiteSpace :: "jschar \<Rightarrow> bool" where
  "isWhiteSpace c =
     (c = 0x0009 \<or> c = 0x000A \<or> c = 0x000B \<or> c = 0x000C \<or> c = 0x000D \<or>
      c = 0x0020 \<or> c = 0x00A0 \<or> c = 0x1680 \<or> (0x2000 \<le> c \<and> c \<le> 0x200A) \<or>
      c = 0x2028 \<or> c = 0x2029 \<or> c = 0x202F \<or> c = 0x205F \<or> c = 0x3000 \<or>
      c = 0xFEFF)"

definition trim :: "jsstring \<Rightarrow> jsstring" where
  "trim s = rev (dropWhile isWhiteSpace (rev (dropWhile isWhiteSpace s)))"

text \<open>\<^verbatim>\<open>s.includes(t)\<close>: \<open>t\<close> occurs in \<open>s\<close> as a contiguous run of code units.\<close>

definition includes_js :: "jsstring \<Rightarrow> jsstring \<Rightarrow> bool" where
  "includes_js s t = sublist t s"

section \<open>The prompt builder (GeminiService.getPrompts)\<close>

text \<open>
  \<^verbatim>\<open>type Feature = 'NL-to-SQL' | 'Optimize Query' | 'Design Schema' | 'Explain SQL'
  | 'Analyze & Suggest'\<close>: a union of string literals. The component works on the
  closed type, the service receives the feature as a plain string.
\<close>

datatype Feature = NL_to_SQL | Optimize_Query | Design_Schema | Explain_SQL | Analyze_Suggest

fun Feature_str :: "Feature \<Rightarrow> jsstring" where
  "Feature_str NL_to_SQL = lit ''NL-to-SQL''"
| "Feature_str Optimize_Query = lit ''Optimize Query''"
| "Feature_str Design_Schema = lit ''Design Schema''"
| "Feature_str Explain_SQL = lit ''Explain SQL''"
| "Feature_str Analyze_Suggest = lit ''Analyze & Suggest''"

text \<open>The response-shape descriptor handed to the remote service (\<^verbatim>\<open>Type.OBJECT\<close> ...).\<close>

datatype Schema =
    STRING jsstring
  | ARRAY jsstring Schema
  | OBJECT "(jsstring \<times> Schema) list" "jsstring list"

definition optimizationSchema :: Schema where
  "optimizationSchema =
     OBJECT
       [(lit ''summary'', STRING (lit ''A brief summary of the query's performance issues.'')),
        (lit ''recommendations'',
           ARRAY (lit ''A list of specific optimization recommendations.'')
             (OBJECT
                [(lit ''title'',
                    STRING (lit ''A short title for the recommendation (e.g., 'Add Index').'')),
                 (lit ''description'',
                    STRING (lit ''A detailed explanation of the recommendation and its benefits.''))]
                [lit ''title'', lit ''description''])),
        (lit ''optimizedQuery'', STRING (lit ''The fully optimized SQL query.''))]
       [lit ''summary'', lit ''recommendations'', lit ''optimizedQuery'']"

record Prompts =
  systemInstruction :: jsstring
  userPrompt :: jsstring
  schema :: "Schema option"

text \<open>
  The local constant \<^verbatim>\<open>contextPreamble\<close> of getPrompts: the context block when the
  trimmed schema context is a non-empty (truthy) string, the empty string otherwise.
\<close>

definition contextPreamble :: "jsstring \<Rightarrow> jsstring" where
  "contextPreamble schemaContext =
     (if trim schemaContext \<noteq> []
      then lit ''You MUST use the following provided context. Do not invent tables, columns, or data structures that are not in this context.\<newline>\<newline>CONTEXT:\<newline>```\<newline>'' @ schemaContext @ lit ''\<newline>```\<newline>\<newline>''
      else [])"

definition getPrompts :: "jsstring \<Rightarrow> jsstring \<Rightarrow> jsstring \<Rightarrow> jsstring \<Rightarrow> Prompts" where
  "getPrompts feature db input schemaContext =
     (if feature = lit ''NL-to-SQL'' then
        \<lparr> systemInstruction = lit ''You are a world-class database administrator and SQL expert specializing in '' @ db @ lit ''. Your sole purpose is to convert natural language text into a single, syntactically perfect, and highly efficient '' @ db @ lit '' SQL query based on the provided context. You ONLY output raw SQL code. You do not provide explanations, comments, or any text other than the SQL query itself. You do not use markdown code blocks.'',
          userPrompt = contextPreamble schemaContext @ lit ''Convert the following request into a '' @ db @ lit '' SQL query: \"'' @ input @ lit ''\"'',
          schema = None \<rparr>
      else if feature = lit ''Optimize Query'' then
        \<lparr> systemInstruction = lit ''You are a world-class database performance tuning specialist for '' @ db @ lit ''. Your task is to analyze a SQL query, using the provided schema context if available, and return a JSON object with your findings. You must provide a concise summary, a list of actionable recommendations with titles and descriptions, and the optimized version of the query.'',
          userPrompt = contextPreamble schemaContext @ lit ''Please analyze and suggest optimizations for this '' @ db @ lit '' SQL query, then return the results in the required JSON format:\<newline>\<newline>'' @ input,
          schema = Some optimizationSchema \<rparr>
      else if feature = lit ''Design Schema'' then
        \<lparr> systemInstruction = lit ''You are a world-class database architect specializing in '' @ db @ lit ''. Your task is to design a well-structured, normalized (3NF) database schema based on a set of requirements. You will provide the complete Data Definition Language (DDL) statements for '' @ db @ lit '', including tables, columns with appropriate data types, primary keys, foreign keys, and necessary indexes. You ONLY output raw SQL DDL code. You do not provide explanations (except as SQL comments) or any text other than the SQL DDL. You do not use markdown code blocks.'',
          userPrompt = lit ''Design a '' @ db @ lit '' schema for the following requirements: \"'' @ input @ lit ''\"'',
          schema = None \<rparr>
      else if feature = lit ''Explain SQL'' then
        \<lparr> systemInstruction = lit ''You are a world-class database administrator and SQL expert specializing in '' @ db @ lit ''. Your purpose is to explain a given SQL query in a clear, concise, and easy-to-understand manner, using the provided schema for context. Break down the query into its logical parts and explain what each part does and how they work together. Your explanation should be helpful for both beginners and experienced developers.'',
          userPrompt = contextPreamble schemaContext @ lit ''Please explain this '' @ db @ lit '' SQL query step-by-step:\<newline>\<newline>'' @ input,
          schema = None \<rparr>
      else if feature = lit ''Analyze & Suggest'' then
        \<lparr> systemInstruction = lit ''You are a world-class data analyst and database architect for '' @ db @ lit ''. Your primary goal is to provide precise, actionable, and highly relevant suggestions. Before you provide a final answer, it is critical that you first evaluate the user's request and the provided context. If the request is vague, ambiguous, or lacks specific details, you MUST ask clarifying questions. Similarly, if the provided context (schema, data, etc.) is insufficient to give a high-quality, accurate answer, you MUST ask for more information. Do not make assumptions. Engage in a dialogue with the user to ensure you have all the necessary details before offering your expert analysis. Format your final response using markdown for readability.'',
          userPrompt = contextPreamble schemaContext @ lit ''Based on the provided context, please analyze and provide suggestions for the following request: \"'' @ input @ lit ''\"'',
          schema = None \<rparr>
      else
        \<lparr> systemInstruction = lit ''You are a helpful assistant.'',
          userPrompt = input,
          schema = None \<rparr>)"

section \<open>Values crossing the boundary to the runtime and the remote service\<close>

text \<open>
  What \<^verbatim>\<open>JSON.parse\<close> may return. The cast \<^verbatim>\<open>as OptimizationResult\<close> of the source
  checks nothing at run time, so the structured result is whatever JSON value the
  payload denotes; \<open>JNull\<close> is JavaScript's \<^verbatim>\<open>null\<close>.
\<close>

datatype json =
    JNull
  | JBool bool
  | JNumber rat
  | JString jsstring
  | JArray "json list"
  | JObject "(jsstring \<times> json) list"

text \<open>The interface \<^verbatim>\<open>OptimizationResult\<close> and the JSON value of such an object.\<close>

record Recommendation =
  title :: jsstring
  description :: jsstring

record OptimizationResult =
  summary :: jsstring
  recommendations :: "Recommendation list"
  optimizedQuery :: jsstring

definition OptimizationResult_json :: "OptimizationResult \<Rightarrow> json" where
  "OptimizationResult_json r =
     JObject
       [(lit ''summary'', JString (summary r)),
        (lit ''recommendations'',
           JArray (map (\<lambda>x. JObject [(lit ''title'', JString (title x)),
                                        (lit ''description'', JString (description x))])
                       (recommendations r))),
        (lit ''optimizedQuery'', JString (optimizedQuery r))]"

text \<open>
  A thrown value: an \<^verbatim>\<open>Error\<close> with its message, or anything else
  (\<^verbatim>\<open>e instanceof Error\<close> is false).
\<close>

datatype thrown = Error jsstring | NonError

text \<open>
  The request handed to the SDK (\<^verbatim>\<open>model\<close>, \<^verbatim>\<open>contents\<close>, \<^verbatim>\<open>config\<close>), and what the
  remote service may answer: a stream delivers the \<^verbatim>\<open>text\<close> of finitely many chunks
  and then ends or fails (a rejected \<^verbatim>\<open>generateContentStream\<close> is a stream that fails
  before its first chunk); a single response carries \<^verbatim>\<open>text: string | undefined\<close>.
\<close>

record request =
  model :: jsstring
  contents :: jsstring
  config_systemInstruction :: jsstring
  config_temperature :: rat
  config_responseMimeType :: "jsstring option"
  config_responseSchema :: "Schema option"

datatype stream_end = EndOfStream | StreamFailure thrown

datatype stream_reply = Stream "jsstring list" stream_end

datatype content_reply = ContentFailure thrown | ContentResponse "jsstring option"

section \<open>History items and the state of the component\<close>

text \<open>
  \<^verbatim>\<open>Omit<HistoryItem, 'id'>\<close> is the record \<open>item\<close>; \<open>HistoryItem\<close> adds the id
  (\<^verbatim>\<open>Date.now()\<close>, milliseconds). \<^verbatim>\<open>optimizationResult: OptimizationResult | null\<close>
  holds the unchecked JSON value. A field that has the name of a signal of the
  component carries the prefix \<open>item_\<close>.
\<close>

record item =
  feature :: Feature
  db :: jsstring
  item_userInput :: jsstring
  item_schemaContext :: jsstring
  item_uploadedFileName :: jsstring
  item_output :: jsstring
  item_optimizationResult :: json

record HistoryItem = item +
  item_id :: int

text \<open>
  The signals of AppComponent (\<open>output'\<close> is the signal \<^verbatim>\<open>output\<close>), the \<^verbatim>\<open>ai\<close> field
  of the injected GeminiService (\<open>True\<close>: a client was created), the slot
  \<^verbatim>\<open>db_guru_history\<close> of localStorage (\<open>None\<close>: no such item) and the log of the
  requests issued to the remote service so far. Storage is taken to be accessible:
  of its operations only \<^verbatim>\<open>setItem\<close> may throw.
\<close>

record state =
  ai :: bool
  selectedFeature :: Feature
  selectedDb :: jsstring
  schemaContext :: jsstring
  uploadedFileName :: jsstring
  userInput :: jsstring
  output' :: jsstring
  optimizationResult :: json
  loading :: bool
  error :: "jsstring option"
  copied :: bool
  history :: "HistoryItem list"
  isContextVisible :: bool
  localStorage :: "jsstring option"
  requests :: "request list"

text \<open>
  What one call reads from outside the component: the answers of the remote service,
  \<^verbatim>\<open>JSON.parse\<close> on the payload (\<open>Inl\<close>: the value it throws) and on the stored
  history (\<open>None\<close>: it throws; the slot is written by saveHistoryToStorage only, so
  its content is read at the type \<^verbatim>\<open>HistoryItem[]\<close>), \<^verbatim>\<open>JSON.stringify\<close>, the clock,
  whether \<^verbatim>\<open>localStorage.setItem\<close> throws (quota), and the user's answer to
  \<^verbatim>\<open>confirm\<close>.
\<close>

record env =
  generateContentStream :: "request \<Rightarrow> stream_reply"
  generateContent :: "request \<Rightarrow> content_reply"
  JSON_parse :: "jsstring \<Rightarrow> thrown + json"
  JSON_parse_history :: "jsstring \<Rightarrow> HistoryItem list option"
  JSON_stringify :: "HistoryItem list \<Rightarrow> jsstring"
  Date_now :: int
  setItem_throws :: bool
  confirm :: bool

section \<open>GeminiService\<close>

text \<open>
  The service whose client \<^verbatim>\<open>ai\<close> may be null: each method first checks it. The
  requests are the arguments of \<^verbatim>\<open>generateContentStream\<close> and \<^verbatim>\<open>generateContent\<close>.
\<close>

definition streamRequest :: "jsstring \<Rightarrow> jsstring \<Rightarrow> jsstring \<Rightarrow> jsstring \<Rightarrow> request" where
  "streamRequest f d inp ctx =
     (let p = getPrompts f d inp ctx in
      \<lparr> model = lit ''gemini-2.5-flash'',
        contents = userPrompt p,
        config_systemInstruction = systemInstruction p,
        config_temperature = 1 / 10,
        config_responseMimeType = None,
        config_responseSchema = None \<rparr>)"

definition structuredRequest :: "jsstring \<Rightarrow> jsstring \<Rightarrow> jsstring \<Rightarrow> request" where
  "structuredRequest d inp ctx =
     (let p = getPrompts (lit ''Optimize Query'') d inp ctx in
      \<lparr> model = lit ''gemini-2.5-flash'',
        contents = userPrompt p,
        config_systemInstruction = systemInstruction p,
        config_temperature = 2 / 10,
        config_responseMimeType = Some (lit ''application/json''),
        config_responseSchema = schema p \<rparr>)"

text \<open>
  generateStream is an async generator: it yields chunks and then returns or throws.
  \<open>issued\<close> are the requests it sent, \<open>yielded\<close> the chunks its consumer received before
  the end, \<open>raised\<close> the value thrown, if any.
\<close>

record stream_result =
  issued :: "request list"
  yielded :: "jsstring list"
  raised :: "thrown option"

definition generateStream ::
  "bool \<Rightarrow> env \<Rightarrow> jsstring \<Rightarrow> jsstring \<Rightarrow> jsstring \<Rightarrow> jsstring \<Rightarrow> stream_result" where
  "generateStream ai_ok e f d inp ctx =
     (if \<not> ai_ok then
        \<lparr> issued = [], yielded = [],
          raised = Some (Error (lit ''Gemini service is not initialized.'')) \<rparr>
      else
        let req = streamRequest f d inp ctx in
        case generateContentStream e req of
          Stream chunks EndOfStream \<Rightarrow>
            \<lparr> issued = [req], yielded = chunks, raised = None \<rparr>
        | Stream chunks (StreamFailure x) \<Rightarrow>
            \<lparr> issued = [req], yielded = chunks,
              raised = Some (Error (lit ''Failed to generate streaming response from AI.'')) \<rparr>)"

text \<open>The body of the \<^verbatim>\<open>try\<close> of generateStructured, and the function with its \<^verbatim>\<open>catch\<close>.\<close>

definition generateStructured_try :: "env \<Rightarrow> request \<Rightarrow> thrown + json" where
  "generateStructured_try e req =
     (case generateContent e req of
        ContentFailure x \<Rightarrow> Inl x
      | ContentResponse None \<Rightarrow> Inl (Error (lit ''Received an empty response from the AI.''))
      | ContentResponse (Some text) \<Rightarrow>
          if text = [] then Inl (Error (lit ''Received an empty response from the AI.''))
          else JSON_parse e text)"

definition generateStructured ::
  "bool \<Rightarrow> env \<Rightarrow> jsstring \<Rightarrow> jsstring \<Rightarrow> jsstring \<Rightarrow> request list \<times> (thrown + json)" where
  "generateStructured ai_ok e d inp ctx =
     (if \<not> ai_ok then ([], Inl (Error (lit ''Gemini service is not initialized.'')))
      else
        let req = structuredRequest d inp ctx in
        case generateStructured_try e req of
          Inr j \<Rightarrow> ([req], Inr j)
        | Inl x \<Rightarrow> ([req], Inl (Error (lit ''Failed to parse structured response from AI.''))))"

section \<open>AppComponent\<close>

text \<open>A fresh component over a service and a storage slot, before the constructor runs.\<close>

definition fresh :: "bool \<Rightarrow> jsstring option \<Rightarrow> state" where
  "fresh ai_ok slot =
     \<lparr> ai = ai_ok,
       selectedFeature = NL_to_SQL,
       selectedDb = lit ''PostgreSQL'',
       schemaContext = [],
       uploadedFileName = [],
       userInput = [],
       output' = [],
       optimizationResult = JNull,
       loading = False,
       error = None,
       copied = False,
       history = [],
       isContextVisible = True,
       localStorage = slot,
       requests = [] \<rparr>"

definition saveHistoryToStorage :: "env \<Rightarrow> state \<Rightarrow> state" where
  "saveHistoryToStorage e s =
     (if setItem_throws e then s
      else s\<lparr>localStorage := Some (JSON_stringify e (history s))\<rparr>)"

definition loadHistoryFromStorage :: "env \<Rightarrow> state \<Rightarrow> state" where
  "loadHistoryFromStorage e s =
     (case localStorage s of
        None \<Rightarrow> s
      | Some storedHistory \<Rightarrow>
          if storedHistory = [] then s
          else (case JSON_parse_history e storedHistory of
                  Some h \<Rightarrow> s\<lparr>history := h\<rparr>
                | None \<Rightarrow> s\<lparr>history := []\<rparr>))"

definition constructor :: "env \<Rightarrow> bool \<Rightarrow> jsstring option \<Rightarrow> state" where
  "constructor e ai_ok slot = loadHistoryFromStorage e (fresh ai_ok slot)"

definition addToHistory :: "env \<Rightarrow> item \<Rightarrow> state \<Rightarrow> state" where
  "addToHistory e it s =
     (let newItem =
            \<lparr> feature = feature it,
              db = db it,
              item_userInput = item_userInput it,
              item_schemaContext = item_schemaContext it,
              item_uploadedFileName = item_uploadedFileName it,
              item_output = item_output it,
              item_optimizationResult = item_optimizationResult it,
              item_id = Date_now e \<rparr>
      in saveHistoryToStorage e (s\<lparr>history := newItem # history s\<rparr>))"

definition clearHistory :: "env \<Rightarrow> state \<Rightarrow> state" where
  "clearHistory e s =
     (if confirm e then s\<lparr>history := [], localStorage := None\<rparr> else s)"

text \<open>The \<^verbatim>\<open>catch\<close> of generate: from the thrown value to the message shown.\<close>

definition rawMessage :: "thrown \<Rightarrow> jsstring" where
  "rawMessage x = (case x of Error m \<Rightarrow> m | NonError \<Rightarrow> lit ''An unknown error occurred.'')"

definition displayMessage :: "thrown \<Rightarrow> jsstring" where
  "displayMessage x =
     (if includes_js (rawMessage x) (lit ''token count exceeds'') \<or>
         includes_js (rawMessage x) (lit ''400'')
      then lit ''Error: The provided context is too large. Please use a smaller file or reduce the amount of text in the context field.''
      else lit ''An error occurred while communicating with the AI: '' @ rawMessage x)"

text \<open>
  The \<^verbatim>\<open>try\<close> block of generate, run on the state in which loading is set and the
  output, result and error are cleared. It returns the state it reached and the value
  thrown, if any. The \<^verbatim>\<open>for await\<close> loop appends each chunk to the output signal as
  it arrives, so the chunks delivered before a failure are in the output when the
  failure is caught. A generation runs from its start to its end with no other
  handler of the component in between.
\<close>

definition generate_try :: "env \<Rightarrow> state \<Rightarrow> state \<times> thrown option" where
  "generate_try e s =
     (let f = selectedFeature s; d = selectedDb s; inp = userInput s; sc = schemaContext s in
      if f = Optimize_Query then
        (case generateStructured (ai s) e d inp sc of
           (reqs, Inl x) \<Rightarrow> (s\<lparr>requests := requests s @ reqs\<rparr>, Some x)
         | (reqs, Inr result) \<Rightarrow>
             (addToHistory e
                \<lparr> feature = f, db = d, item_userInput = inp, item_schemaContext = sc,
                  item_uploadedFileName = uploadedFileName s,
                  item_output = [],
                  item_optimizationResult = result \<rparr>
                (s\<lparr>requests := requests s @ reqs, optimizationResult := result\<rparr>),
              None))
      else
        (let r = generateStream (ai s) e (Feature_str f) d inp sc;
             s' = s\<lparr>requests := requests s @ issued r,
                    output' := foldl (\<lambda>current chunk. current @ chunk) (output' s) (yielded r)\<rparr>
         in case raised r of
              Some x \<Rightarrow> (s', Some x)
            | None \<Rightarrow>
                (addToHistory e
                   \<lparr> feature = f, db = d, item_userInput = inp, item_schemaContext = sc,
                     item_uploadedFileName = uploadedFileName s',
                     item_output = output' s',
                     item_optimizationResult = JNull \<rparr>
                   s',
                 None)))"

text \<open>
  generate: the guard, the four resets before the \<^verbatim>\<open>try\<close> (\<open>generate_begin\<close>), the
  \<^verbatim>\<open>try\<close> block, the \<^verbatim>\<open>catch\<close> and the \<^verbatim>\<open>finally\<close>.
\<close>

definition generate_begin :: "state \<Rightarrow> state" where
  "generate_begin s =
     s\<lparr>loading := True, output' := [], optimizationResult := JNull, error := None\<rparr>"

definition generate :: "env \<Rightarrow> state \<Rightarrow> state" where
  "generate e s =
     (if trim (userInput s) = [] \<or> loading s then s
      else
        (case generate_try e (generate_begin s) of
           (s', None) \<Rightarrow> s'\<lparr>loading := False\<rparr>
         | (s', Some x) \<Rightarrow> s'\<lparr>error := Some (displayMessage x), loading := False\<rparr>))"

text \<open>
  A generation is successful when it passes the guard and its \<^verbatim>\<open>try\<close> block ends
  without a thrown value.
\<close>

definition generation_succeeds :: "env \<Rightarrow> state \<Rightarrow> bool" where
  "generation_succeeds e s =
     (\<not> (trim (userInput s) = [] \<or> loading s) \<and> snd (generate_try e (generate_begin s)) = None)"

text \<open>
  A run of generations: before each one the user fills the form (the five selection
  signals), then generate is invoked with what the outside answers that time.
\<close>

record form =
  form_feature :: Feature
  form_db :: jsstring
  form_userInput :: jsstring
  form_schemaContext :: jsstring
  form_uploadedFileName :: jsstring

definition fill :: "form \<Rightarrow> state \<Rightarrow> state" where
  "fill fm s =
     s\<lparr>selectedFeature := form_feature fm,
       selectedDb := form_db fm,
       userInput := form_userInput fm,
       schemaContext := form_schemaContext fm,
       uploadedFileName := form_uploadedFileName fm\<rparr>"

fun generations :: "(form \<times> env) list \<Rightarrow> state \<Rightarrow> state" where
  "generations [] s = s"
| "generations ((fm, e) # rest) s = generations rest (generate e (fill fm s))"

fun all_succeed :: "(form \<times> env) list \<Rightarrow> state \<Rightarrow> bool" where
  "all_succeed [] s = True"
| "all_succeed ((fm, e) # rest) s =
     (generation_succeeds e (fill fm s) \<and> all_succeed rest (generate e (fill fm s)))"

section \<open>Example inputs\<close>

text \<open>
  Concrete answers of the outside and concrete sessions, at which the theorems below are
  instantiated. \<open>example_JSON_parse\<close> agrees with \<^verbatim>\<open>JSON.parse\<close> on the two payloads it
  knows and throws on every other text. The two functions of \<open>example_env\<close> on the
  stored history are stand-ins: no statement below depends on what they return.
\<close>

definition example_JSON_parse :: "jsstring \<Rightarrow> thrown + json" where
  "example_JSON_parse text =
     (if text = lit ''null'' then Inr JNull
      else if text = lit ''{\"summary\":\"ok\",\"recommendations\":[],\"optimizedQuery\":\"SELECT 1\"}''
      then Inr (OptimizationResult_json
                  \<lparr> summary = lit ''ok'', recommendations = [], optimizedQuery = lit ''SELECT 1'' \<rparr>)
      else Inl (Error (lit ''Unexpected token'')))"

definition example_env :: "stream_reply \<Rightarrow> content_reply \<Rightarrow> int \<Rightarrow> env" where
  "example_env sr cr t =
     \<lparr> generateContentStream = (\<lambda>req. sr),
       generateContent = (\<lambda>req. cr),
       JSON_parse = example_JSON_parse,
       JSON_parse_history = (\<lambda>stored. None),
       JSON_stringify = (\<lambda>h. lit ''[]''),
       Date_now = t,
       setItem_throws = False,
       confirm = True \<rparr>"

definition example_session :: "Feature \<Rightarrow> jsstring \<Rightarrow> jsstring \<Rightarrow> state" where
  "example_session f inp ctx =
     (fresh True None)\<lparr>selectedFeature := f, userInput := inp, schemaContext := ctx\<rparr>"

definition example_form :: "Feature \<Rightarrow> jsstring \<Rightarrow> form" where
  "example_form f inp =
     \<lparr> form_feature = f, form_db = lit ''PostgreSQL'', form_userInput = inp,
       form_schemaContext = [], form_uploadedFileName = [] \<rparr>"

section \<open>Auxiliary lemmas\<close>

lemma trim_eq_Nil_iff: "trim s = [] \<longleftrightarrow> list_all isWhiteSpace s"
proof
  assume "trim s = []"
  then have a: "\<forall>x\<in>set (dropWhile isWhiteSpace s). isWhiteSpace x"
    by (simp add: trim_def dropWhile_eq_Nil_conv)
  show "list_all isWhiteSpace s"
  proof (cases "dropWhile isWhiteSpace s")
    case Nil
    then show ?thesis by (simp add: dropWhile_eq_Nil_conv list_all_iff)
  next
    case (Cons x xs)
    then have "\<not> isWhiteSpace x" using hd_dropWhile[of isWhiteSpace s] by simp
    with a Cons show ?thesis by simp
  qed
next
  assume "list_all isWhiteSpace s"
  then show "trim s = []" by (auto simp: trim_def list_all_iff dest: set_dropWhileD)
qed

lemma foldl_append_concat: "foldl (\<lambda>current chunk. current @ chunk) acc xs = acc @ concat xs"
  by (induction xs arbitrary: acc) simp_all

lemma generate_stream_ok:
  assumes "trim (userInput s) \<noteq> []" "\<not> loading s" "ai s" "selectedFeature s \<noteq> Optimize_Query"
    and "generateContentStream e (streamRequest (Feature_str (selectedFeature s)) (selectedDb s)
            (userInput s) (schemaContext s)) = Stream chunks EndOfStream"
  shows "generate e s =
    saveHistoryToStorage e
     (s\<lparr>output' := concat chunks, optimizationResult := JNull, error := None,
        requests := requests s @ [streamRequest (Feature_str (selectedFeature s)) (selectedDb s)
            (userInput s) (schemaContext s)],
        history := \<lparr> feature = selectedFeature s, db = selectedDb s, item_userInput = userInput s,
            item_schemaContext = schemaContext s, item_uploadedFileName = uploadedFileName s,
            item_output = concat chunks, item_optimizationResult = JNull,
            item_id = Date_now e \<rparr> # history s\<rparr>)"
    and "generation_succeeds e s"
  using assms
  by (simp_all add: generate_def generation_succeeds_def generate_try_def generate_begin_def generateStream_def
      addToHistory_def saveHistoryToStorage_def Let_def foldl_append_concat)

lemma generate_stream_fail:
  assumes "trim (userInput s) \<noteq> []" "\<not> loading s" "ai s" "selectedFeature s \<noteq> Optimize_Query"
    and "generateContentStream e (streamRequest (Feature_str (selectedFeature s)) (selectedDb s)
            (userInput s) (schemaContext s)) = Stream chunks (StreamFailure x)"
  shows "generate e s =
     s\<lparr>output' := concat chunks, optimizationResult := JNull,
        error := Some (displayMessage (Error (lit ''Failed to generate streaming response from AI.''))),
        requests := requests s @ [streamRequest (Feature_str (selectedFeature s)) (selectedDb s)
            (userInput s) (schemaContext s)]\<rparr>"
    and "\<not> generation_succeeds e s"
  using assms
  by (simp_all add: generate_def generation_succeeds_def generate_try_def generate_begin_def generateStream_def
      addToHistory_def saveHistoryToStorage_def Let_def foldl_append_concat)

lemma generate_structured_ok:
  assumes "trim (userInput s) \<noteq> []" "\<not> loading s" "ai s" "selectedFeature s = Optimize_Query"
    and "generateContent e (structuredRequest (selectedDb s) (userInput s) (schemaContext s))
           = ContentResponse (Some text)" "text \<noteq> []" "JSON_parse e text = Inr j"
  shows "generate e s =
    saveHistoryToStorage e
     (s\<lparr>output' := [], optimizationResult := j, error := None,
        requests := requests s @ [structuredRequest (selectedDb s) (userInput s) (schemaContext s)],
        history := \<lparr> feature = Optimize_Query, db = selectedDb s, item_userInput = userInput s,
            item_schemaContext = schemaContext s, item_uploadedFileName = uploadedFileName s,
            item_output = [], item_optimizationResult = j,
            item_id = Date_now e \<rparr> # history s\<rparr>)"
    and "generation_succeeds e s"
  using assms
  by (simp_all add: generate_def generation_succeeds_def generate_try_def generate_begin_def generateStructured_def
      generateStructured_try_def addToHistory_def saveHistoryToStorage_def Let_def)

lemma generate_structured_fail:
  assumes "trim (userInput s) \<noteq> []" "\<not> loading s" "ai s" "selectedFeature s = Optimize_Query"
    and "generateStructured_try e (structuredRequest (selectedDb s) (userInput s) (schemaContext s)) = Inl x"
  shows "generate e s =
     s\<lparr>output' := [], optimizationResult := JNull,
        error := Some (displayMessage (Error (lit ''Failed to parse structured response from AI.''))),
        requests := requests s @ [structuredRequest (selectedDb s) (userInput s) (schemaContext s)]\<rparr>"
    and "\<not> generation_succeeds e s"
  using assms
  by (simp_all add: generate_def generation_succeeds_def generate_try_def generate_begin_def generateStructured_def
      Let_def)

lemma generate_uninitialized:
  assumes "trim (userInput s) \<noteq> []" "\<not> loading s" "\<not> ai s"
  shows "generate e s =
     s\<lparr>output' := [], optimizationResult := JNull,
        error := Some (displayMessage (Error (lit ''Gemini service is not initialized.'')))\<rparr>"
    and "\<not> generation_succeeds e s"
  using assms
  by (simp_all add: generate_def generation_succeeds_def generate_try_def generate_begin_def generateStructured_def
      generateStream_def Let_def)

lemma history_saveHistoryToStorage: "history (saveHistoryToStorage e s) = history s"
  by (simp add: saveHistoryToStorage_def)

lemma displayMessage_stream_failure:
  "displayMessage (Error (lit ''Failed to generate streaming response from AI.'')) =
     lit ''An error occurred while communicating with the AI: Failed to generate streaming response from AI.''"
  by (simp add: displayMessage_def rawMessage_def includes_js_def lit_def sublist_code)

lemma displayMessage_parse_failure:
  "displayMessage (Error (lit ''Failed to parse structured response from AI.'')) =
     lit ''An error occurred while communicating with the AI: Failed to parse structured response from AI.''"
  by (simp add: displayMessage_def rawMessage_def includes_js_def lit_def sublist_code)

lemma trim_example [simp]: "trim (lit ''list all users'') \<noteq> []" "trim (lit ''   '') = []"
  by (simp_all add: trim_def lit_def isWhiteSpace_def)

lemma generateStructured_try_Inr:
  "generateStructured_try e req = Inr j \<longleftrightarrow>
     (\<exists>text. generateContent e req = ContentResponse (Some text) \<and> text \<noteq> [] \<and>
             JSON_parse e text = Inr j)"
  by (auto simp: generateStructured_try_def split: content_reply.splits option.splits)

lemma generation_succeeds_cases:
  assumes "generation_succeeds e s"
  shows "trim (userInput s) \<noteq> [] \<and> \<not> loading s \<and> ai s \<and>
     (if selectedFeature s = Optimize_Query
      then \<exists>text j. generateContent e (structuredRequest (selectedDb s) (userInput s) (schemaContext s))
                      = ContentResponse (Some text) \<and> text \<noteq> [] \<and> JSON_parse e text = Inr j
      else \<exists>chunks. generateContentStream e (streamRequest (Feature_str (selectedFeature s))
                      (selectedDb s) (userInput s) (schemaContext s)) = Stream chunks EndOfStream)"
proof -
  from assms have g: "trim (userInput s) \<noteq> []" "\<not> loading s"
    by (simp_all add: generation_succeeds_def)
  have a: "ai s" using assms generate_uninitialized(2)[OF g] by blast
  show ?thesis
  proof (cases "selectedFeature s = Optimize_Query")
    case True
    obtain r where r: "generateStructured_try e
        (structuredRequest (selectedDb s) (userInput s) (schemaContext s)) = r" by simp
    show ?thesis
    proof (cases r)
      case (Inl x)
      with r assms generate_structured_fail(2)[OF g a True] show ?thesis by blast
    next
      case (Inr j)
      with r generateStructured_try_Inr g a True show ?thesis by auto
    qed
  next
    case False
    obtain chunks en where r: "generateContentStream e (streamRequest (Feature_str (selectedFeature s))
        (selectedDb s) (userInput s) (schemaContext s)) = Stream chunks en"
      by (cases "generateContentStream e (streamRequest (Feature_str (selectedFeature s))
        (selectedDb s) (userInput s) (schemaContext s))") auto
    show ?thesis
    proof (cases en)
      case EndOfStream
      with r g a False show ?thesis by auto
    next
      case (StreamFailure x)
      with r assms generate_stream_fail(2)[OF g a False] show ?thesis by blast
    qed
  qed
qed

lemma generate_try_raises:
  assumes "snd (generate_try e s) = Some y"
  shows "y = Error (lit ''Gemini service is not initialized.'') \<or>
         y = Error (lit ''Failed to generate streaming response from AI.'') \<or>
         y = Error (lit ''Failed to parse structured response from AI.'')"
  using assms
  by (auto simp: generate_try_def generateStream_def generateStructured_def Let_def
      split: if_splits prod.splits sum.splits option.splits stream_reply.splits stream_end.splits)

lemma generation_succeeds_prepends:
  assumes "generation_succeeds e s"
  shows "\<exists>out res. history (generate e s) =
           \<lparr> feature = selectedFeature s, db = selectedDb s, item_userInput = userInput s,
             item_schemaContext = schemaContext s, item_uploadedFileName = uploadedFileName s,
             item_output = out, item_optimizationResult = res,
             item_id = Date_now e \<rparr> # history s"
proof -
  from generation_succeeds_cases[OF assms]
  have g: "trim (userInput s) \<noteq> []" "\<not> loading s" "ai s" and
    c: "if selectedFeature s = Optimize_Query
      then \<exists>text j. generateContent e (structuredRequest (selectedDb s) (userInput s) (schemaContext s))
                      = ContentResponse (Some text) \<and> text \<noteq> [] \<and> JSON_parse e text = Inr j
      else \<exists>chunks. generateContentStream e (streamRequest (Feature_str (selectedFeature s))
                      (selectedDb s) (userInput s) (schemaContext s)) = Stream chunks EndOfStream"
    by (auto split: if_splits)
  show ?thesis
  proof (cases "selectedFeature s = Optimize_Query")
    case True
    with c obtain payload j where
      "generateContent e (structuredRequest (selectedDb s) (userInput s) (schemaContext s))
         = ContentResponse (Some payload)" "payload \<noteq> []" "JSON_parse e payload = Inr j"
      by auto
    from generate_structured_ok(1)[OF g True this] True show ?thesis
      by (simp add: history_saveHistoryToStorage)
  next
    case False
    with c obtain chunks where
      "generateContentStream e (streamRequest (Feature_str (selectedFeature s))
          (selectedDb s) (userInput s) (schemaContext s)) = Stream chunks EndOfStream"
      by auto
    from generate_stream_ok(1)[OF g False this] show ?thesis
      by (simp add: history_saveHistoryToStorage)
  qed
qed

lemma generations_append:
  "generations (xs @ ys) s = generations ys (generations xs s)"
  by (induction xs arbitrary: s) auto

lemma fill_fields:
  "history (fill fm s) = history s" "userInput (fill fm s) = form_userInput fm"
  by (simp_all add: fill_def)

lemma generations_history:
  assumes "all_succeed steps s"
  shows "\<exists>items. history (generations steps s) = items @ history s \<and>
           length items = length steps \<and>
           map item_id items = rev (map (\<lambda>st. Date_now (snd st)) steps) \<and>
           map item_userInput items = rev (map (\<lambda>st. form_userInput (fst st)) steps)"
  using assms
proof (induction steps arbitrary: s)
  case Nil
  then show ?case by simp
next
  case (Cons st steps)
  obtain fm e where st: "st = (fm, e)" by (cases st)
  from Cons.prems st have ok: "generation_succeeds e (fill fm s)"
    and rest: "all_succeed steps (generate e (fill fm s))" by simp_all
  from generation_succeeds_prepends[OF ok] obtain it where
    it: "history (generate e (fill fm s)) = it # history s" "item_id it = Date_now e"
      "item_userInput it = form_userInput fm"
    by (auto simp: fill_fields)
  from Cons.IH[OF rest] obtain items where
    items: "history (generations steps (generate e (fill fm s))) = items @ history (generate e (fill fm s))"
      "length items = length steps"
      "map item_id items = rev (map (\<lambda>st. Date_now (snd st)) steps)"
      "map item_userInput items = rev (map (\<lambda>st. form_userInput (fst st)) steps)"
    by blast
  have "history (generations (st # steps) s) = (items @ [it]) @ history s"
    using st it items by simp
  moreover have "length (items @ [it]) = length (st # steps)" using items by simp
  moreover have "map item_id (items @ [it]) = rev (map (\<lambda>st. Date_now (snd st)) (st # steps))"
    using st it items by simp
  moreover have "map item_userInput (items @ [it]) = rev (map (\<lambda>st. form_userInput (fst st)) (st # steps))"
    using st it items by simp
  ultimately show ?case by blast
qed

lemma ai_generate: "ai (generate e s) = ai s"
  by (simp add: generate_def generate_try_def generate_begin_def addToHistory_def
      saveHistoryToStorage_def Let_def
      split: prod.splits sum.splits option.splits)

lemma loading_generate: "\<not> loading s \<Longrightarrow> \<not> loading (generate e s)"
  by (simp add: generate_def split: prod.splits option.splits)

lemma example_two_generations:
  "all_succeed
     [(example_form NL_to_SQL (lit ''list all users''),
       example_env (Stream [lit ''SELECT 1''] EndOfStream) (ContentResponse None) t1),
      (example_form Explain_SQL (lit ''SELECT 1''),
       example_env (Stream [] EndOfStream) (ContentResponse None) t2)]
     (fresh True None)"
proof -
  let ?fm1 = "example_form NL_to_SQL (lit ''list all users'')"
  let ?fm2 = "example_form Explain_SQL (lit ''SELECT 1'')"
  let ?e1 = "example_env (Stream [lit ''SELECT 1''] EndOfStream) (ContentResponse None) t1"
  let ?e2 = "example_env (Stream [] EndOfStream) (ContentResponse None) t2"
  let ?s0 = "fresh True None"
  have s1: "generation_succeeds ?e1 (fill ?fm1 ?s0)"
    by (rule generate_stream_ok(2)[where chunks = "[lit ''SELECT 1'']"])
      (simp_all add: fill_def fresh_def example_form_def example_env_def trim_def lit_def
        isWhiteSpace_def)
  have a: "ai (fill ?fm2 (generate ?e1 (fill ?fm1 ?s0)))"
    by (simp add: fill_def ai_generate fresh_def)
  have "\<not> loading (generate ?e1 (fill ?fm1 ?s0))"
    by (rule loading_generate) (simp add: fill_def fresh_def)
  then have l: "\<not> loading (fill ?fm2 (generate ?e1 (fill ?fm1 ?s0)))"
    by (simp add: fill_def)
  have s2: "generation_succeeds ?e2 (fill ?fm2 (generate ?e1 (fill ?fm1 ?s0)))"
    by (rule generate_stream_ok(2)[where chunks = "[]", OF _ l a])
      (simp_all add: fill_def example_form_def example_env_def trim_def lit_def isWhiteSpace_def)
  from s1 s2 show ?thesis by simp
qed

lemma contextPreamble_blank: "list_all isWhiteSpace ctx \<Longrightarrow> contextPreamble ctx = []"
  by (simp add: contextPreamble_def trim_eq_Nil_iff)

lemma contextPreamble_context:
  "trim ctx \<noteq> [] \<Longrightarrow>
     contextPreamble ctx =
       lit ''You MUST use the following provided context. Do not invent tables, columns, or data structures that are not in this context.\<newline>\<newline>CONTEXT:\<newline>```\<newline>'' @ ctx @ lit ''\<newline>```\<newline>\<newline>''"
  by (simp add: contextPreamble_def)

lemma feature_literals_distinct:
  "lit ''Optimize Query'' \<noteq> lit ''NL-to-SQL''"
  "lit ''Design Schema'' \<noteq> lit ''NL-to-SQL''"
  "lit ''Design Schema'' \<noteq> lit ''Optimize Query''"
  "lit ''Explain SQL'' \<noteq> lit ''NL-to-SQL''"
  "lit ''Explain SQL'' \<noteq> lit ''Optimize Query''"
  "lit ''Explain SQL'' \<noteq> lit ''Design Schema''"
  "lit ''Analyze & Suggest'' \<noteq> lit ''NL-to-SQL''"
  "lit ''Analyze & Suggest'' \<noteq> lit ''Optimize Query''"
  "lit ''Analyze & Suggest'' \<noteq> lit ''Design Schema''"
  "lit ''Analyze & Suggest'' \<noteq> lit ''Explain SQL''"
  by (simp_all add: lit_def)

lemma userPrompt_getPrompts:
  "userPrompt (getPrompts (lit ''NL-to-SQL'') d inp ctx) =
     contextPreamble ctx @ lit ''Convert the following request into a '' @ d @ lit '' SQL query: \"'' @ inp @ lit ''\"''"
  "userPrompt (getPrompts (lit ''Optimize Query'') d inp ctx) =
     contextPreamble ctx @ lit ''Please analyze and suggest optimizations for this '' @ d @ lit '' SQL query, then return the results in the required JSON format:\<newline>\<newline>'' @ inp"
  "userPrompt (getPrompts (lit ''Design Schema'') d inp ctx) =
     lit ''Design a '' @ d @ lit '' schema for the following requirements: \"'' @ inp @ lit ''\"''"
  "userPrompt (getPrompts (lit ''Explain SQL'') d inp ctx) =
     contextPreamble ctx @ lit ''Please explain this '' @ d @ lit '' SQL query step-by-step:\<newline>\<newline>'' @ inp"
  "userPrompt (getPrompts (lit ''Analyze & Suggest'') d inp ctx) =
     contextPreamble ctx @ lit ''Based on the provided context, please analyze and provide suggestions for the following request: \"'' @ inp @ lit ''\"''"
  by (simp_all add: getPrompts_def feature_literals_distinct)

lemma systemInstruction_getPrompts:
  "systemInstruction (getPrompts (Feature_str f) d inp ctx) =
   systemInstruction (getPrompts (Feature_str f) d inp ctx')"
  by (cases f) (simp_all add: getPrompts_def feature_literals_distinct)

lemma includes_js_middle: "includes_js (p @ m @ q) m"
  by (auto simp: includes_js_def sublist_def)

section \<open>The claims\<close>

text \<open>
  C6: when the generating flag is already set, or the user input is empty after
  trimming, generate changes nothing: the whole state, which holds every signal of the
  session and the log of issued requests, is the one it started from.
\<close>

theorem generate_guard_noop:
  "loading s \<or> trim (userInput s) = [] \<Longrightarrow>
     generate e s = s \<and> requests (generate e s) = requests s"
  by (auto simp: generate_def)

theorem generate_guard_noop_witness:
  "(loading ((example_session NL_to_SQL (lit ''list all users'') [])\<lparr>loading := True\<rparr>) \<or>
    trim (userInput ((example_session NL_to_SQL (lit ''list all users'') [])\<lparr>loading := True\<rparr>)) = []) \<and>
   generate (example_env (Stream [lit ''SELECT 1''] EndOfStream) (ContentResponse None) 1000)
     ((example_session NL_to_SQL (lit ''list all users'') [])\<lparr>loading := True\<rparr>)
   = (example_session NL_to_SQL (lit ''list all users'') [])\<lparr>loading := True\<rparr>"
  using generate_guard_noop
    [of "(example_session NL_to_SQL (lit ''list all users'') [])\<lparr>loading := True\<rparr>"
        "example_env (Stream [lit ''SELECT 1''] EndOfStream) (ContentResponse None) 1000"]
  by simp

text \<open>
  C8: after a confirmed clearHistory the history list is empty and the storage slot is
  removed; loading from storage again, in the same component or in a fresh one built
  over that storage, yields an empty history.
\<close>

theorem clearHistory_confirmed:
  "confirm e \<Longrightarrow>
     history (clearHistory e s) = [] \<and>
     localStorage (clearHistory e s) = None \<and>
     history (loadHistoryFromStorage e' (clearHistory e s)) = [] \<and>
     history (constructor e' a (localStorage (clearHistory e s))) = []"
  by (simp add: clearHistory_def loadHistoryFromStorage_def constructor_def fresh_def)

theorem clearHistory_confirmed_witness:
  "confirm (example_env (Stream [] EndOfStream) (ContentResponse None) 1000) \<and>
   history (clearHistory (example_env (Stream [] EndOfStream) (ContentResponse None) 1000)
      ((example_session NL_to_SQL (lit ''list all users'') [])
         \<lparr>history := [\<lparr> feature = NL_to_SQL, db = lit ''PostgreSQL'',
                        item_userInput = lit ''list all users'', item_schemaContext = [],
                        item_uploadedFileName = [], item_output = lit ''SELECT 1'',
                        item_optimizationResult = JNull, item_id = 1000 \<rparr>],
          localStorage := Some (lit ''[]'')\<rparr>)) = []"
  using clearHistory_confirmed
    [of "example_env (Stream [] EndOfStream) (ContentResponse None) 1000"
        "(example_session NL_to_SQL (lit ''list all users'') [])
         \<lparr>history := [\<lparr> feature = NL_to_SQL, db = lit ''PostgreSQL'',
                        item_userInput = lit ''list all users'', item_schemaContext = [],
                        item_uploadedFileName = [], item_output = lit ''SELECT 1'',
                        item_optimizationResult = JNull, item_id = 1000 \<rparr>],
          localStorage := Some (lit ''[]'')\<rparr>"]
  by (simp add: example_env_def)

text \<open>
  C9: when the transport fails during a streaming generation, generateStream stops
  and throws its stream-generation-failed error, and the fragments delivered before the
  failure stay in the output: the output is their concatenation, the failure is shown
  as the error, nothing is added to the history and the generating flag is cleared.
\<close>

theorem stream_failure_keeps_partial_output:
  assumes "trim (userInput s) \<noteq> []" "\<not> loading s" "ai s" "selectedFeature s \<noteq> Optimize_Query"
    and "generateContentStream e (streamRequest (Feature_str (selectedFeature s)) (selectedDb s)
            (userInput s) (schemaContext s)) = Stream chunks (StreamFailure x)"
  shows "yielded (generateStream (ai s) e (Feature_str (selectedFeature s)) (selectedDb s)
            (userInput s) (schemaContext s)) = chunks \<and>
         raised (generateStream (ai s) e (Feature_str (selectedFeature s)) (selectedDb s)
            (userInput s) (schemaContext s))
           = Some (Error (lit ''Failed to generate streaming response from AI.'')) \<and>
         output' (generate e s) = concat chunks \<and>
         error (generate e s) = Some (lit ''An error occurred while communicating with the AI: Failed to generate streaming response from AI.'') \<and>
         history (generate e s) = history s \<and>
         \<not> loading (generate e s)"
  using assms generate_stream_fail(1)[OF assms]
  by (simp add: generateStream_def Let_def displayMessage_stream_failure)

theorem stream_failure_keeps_partial_output_witness:
  "trim (userInput (example_session NL_to_SQL (lit ''list all users'') [])) \<noteq> [] \<and>
   \<not> loading (example_session NL_to_SQL (lit ''list all users'') []) \<and>
   ai (example_session NL_to_SQL (lit ''list all users'') []) \<and>
   selectedFeature (example_session NL_to_SQL (lit ''list all users'') []) \<noteq> Optimize_Query \<and>
   output' (generate
      (example_env (Stream [lit ''SELECT'', lit '' * FROM''] (StreamFailure (Error (lit ''fetch failed''))))
         (ContentResponse None) 1000)
      (example_session NL_to_SQL (lit ''list all users'') [])) = lit ''SELECT * FROM''"
  using stream_failure_keeps_partial_output
    [of "example_session NL_to_SQL (lit ''list all users'') []"
        "example_env (Stream [lit ''SELECT'', lit '' * FROM''] (StreamFailure (Error (lit ''fetch failed''))))
           (ContentResponse None) 1000"
        "[lit ''SELECT'', lit '' * FROM'']" "Error (lit ''fetch failed'')"]
  by (simp add: example_session_def example_env_def fresh_def lit_def trim_def isWhiteSpace_def)

text \<open>
  C10: for a feature other than Optimize Query, a stream that ends normally after
  zero fragments still puts an entry in front of the history; its output is the empty
  string and its optimizationResult is null.
\<close>

theorem empty_stream_appends_blank_entry:
  assumes "trim (userInput s) \<noteq> []" "\<not> loading s" "ai s" "selectedFeature s \<noteq> Optimize_Query"
    and "generateContentStream e (streamRequest (Feature_str (selectedFeature s)) (selectedDb s)
            (userInput s) (schemaContext s)) = Stream [] EndOfStream"
  shows "history (generate e s) =
           \<lparr> feature = selectedFeature s, db = selectedDb s, item_userInput = userInput s,
             item_schemaContext = schemaContext s, item_uploadedFileName = uploadedFileName s,
             item_output = [], item_optimizationResult = JNull,
             item_id = Date_now e \<rparr> # history s"
  using generate_stream_ok(1)[OF assms]
  by (simp add: history_saveHistoryToStorage)

theorem empty_stream_appends_blank_entry_witness:
  "trim (userInput (example_session NL_to_SQL (lit ''list all users'') [])) \<noteq> [] \<and>
   \<not> loading (example_session NL_to_SQL (lit ''list all users'') []) \<and>
   ai (example_session NL_to_SQL (lit ''list all users'') []) \<and>
   selectedFeature (example_session NL_to_SQL (lit ''list all users'') []) \<noteq> Optimize_Query \<and>
   history (generate (example_env (Stream [] EndOfStream) (ContentResponse None) 1000)
      (example_session NL_to_SQL (lit ''list all users'') [])) =
     [\<lparr> feature = NL_to_SQL, db = lit ''PostgreSQL'', item_userInput = lit ''list all users'',
        item_schemaContext = [], item_uploadedFileName = [],
        item_output = [], item_optimizationResult = JNull, item_id = 1000 \<rparr>]"
  using empty_stream_appends_blank_entry
    [of "example_session NL_to_SQL (lit ''list all users'') []"
        "example_env (Stream [] EndOfStream) (ContentResponse None) 1000"]
  by (simp add: example_session_def example_env_def fresh_def)

text \<open>
  C7, at a transport failure that carries an HTTP 400 and the words ``token count
  exceeds'': the catch of generate would show the dedicated context-too-large message
  for that thrown value, but generateStream has replaced it by its own fixed error
  before generate sees it. The generation shows the generic message around the text
  of the service, which is not the dedicated message and does not contain the original
  failure text.
\<close>

theorem token_count_failure_shown_generic:
  "displayMessage (Error (lit ''got status: 400 Bad Request. The input token count exceeds the maximum number of tokens allowed''))
     = lit ''Error: The provided context is too large. Please use a smaller file or reduce the amount of text in the context field.'' \<and>
   raised (generateStream True
      (example_env
         (Stream [] (StreamFailure (Error (lit ''got status: 400 Bad Request. The input token count exceeds the maximum number of tokens allowed''))))
         (ContentResponse None) 1000)
      (lit ''NL-to-SQL'') (lit ''PostgreSQL'') (lit ''list all users'') (lit ''CREATE TABLE users (id int);''))
     = Some (Error (lit ''Failed to generate streaming response from AI.'')) \<and>
   error (generate
      (example_env
         (Stream [] (StreamFailure (Error (lit ''got status: 400 Bad Request. The input token count exceeds the maximum number of tokens allowed''))))
         (ContentResponse None) 1000)
      (example_session NL_to_SQL (lit ''list all users'') (lit ''CREATE TABLE users (id int);'')))
     = Some (lit ''An error occurred while communicating with the AI: Failed to generate streaming response from AI.'') \<and>
   \<not> includes_js
       (lit ''An error occurred while communicating with the AI: Failed to generate streaming response from AI.'')
       (lit ''got status: 400 Bad Request. The input token count exceeds the maximum number of tokens allowed'')"
proof -
  let ?m = "lit ''got status: 400 Bad Request. The input token count exceeds the maximum number of tokens allowed''"
  let ?e = "example_env (Stream [] (StreamFailure (Error ?m))) (ContentResponse None) 1000"
  let ?s = "example_session NL_to_SQL (lit ''list all users'') (lit ''CREATE TABLE users (id int);'')"
  have d: "displayMessage (Error ?m)
     = lit ''Error: The provided context is too large. Please use a smaller file or reduce the amount of text in the context field.''"
    by (simp add: displayMessage_def rawMessage_def includes_js_def lit_def sublist_code)
  have r: "raised (generateStream True ?e (lit ''NL-to-SQL'') (lit ''PostgreSQL'')
        (lit ''list all users'') (lit ''CREATE TABLE users (id int);''))
     = Some (Error (lit ''Failed to generate streaming response from AI.''))"
    by (simp add: generateStream_def Let_def example_env_def)
  have g: "trim (userInput ?s) \<noteq> []" "\<not> loading ?s" "ai ?s" "selectedFeature ?s \<noteq> Optimize_Query"
    by (simp_all add: example_session_def fresh_def)
  have f: "generateContentStream ?e (streamRequest (Feature_str (selectedFeature ?s)) (selectedDb ?s)
            (userInput ?s) (schemaContext ?s)) = Stream [] (StreamFailure (Error ?m))"
    by (simp add: example_env_def)
  from generate_stream_fail(1)[OF g f]
  have x: "error (generate ?e ?s)
     = Some (lit ''An error occurred while communicating with the AI: Failed to generate streaming response from AI.'')"
    by (simp add: displayMessage_stream_failure)
  have n: "\<not> includes_js
       (lit ''An error occurred while communicating with the AI: Failed to generate streaming response from AI.'') ?m"
    by (simp add: includes_js_def lit_def sublist_code)
  from d r x n show ?thesis by blast
qed

text \<open>
  C2, at a response whose text is the empty string: the try block of
  generateStructured throws the empty-response error, its own catch replaces it, and the
  call fails with the failed-to-parse error, the one a malformed payload gives. The
  generation shows that error and appends nothing to the history.
\<close>

theorem empty_structured_text_reported_as_parse_failure:
  "generateStructured_try
      (example_env (Stream [] EndOfStream) (ContentResponse (Some [])) 1000)
      (structuredRequest (lit ''PostgreSQL'') (lit ''SELECT * FROM users'') [])
     = Inl (Error (lit ''Received an empty response from the AI.'')) \<and>
   snd (generateStructured True
      (example_env (Stream [] EndOfStream) (ContentResponse (Some [])) 1000)
      (lit ''PostgreSQL'') (lit ''SELECT * FROM users'') [])
     = Inl (Error (lit ''Failed to parse structured response from AI.'')) \<and>
   error (generate (example_env (Stream [] EndOfStream) (ContentResponse (Some [])) 1000)
            (example_session Optimize_Query (lit ''SELECT * FROM users'') []))
     = Some (lit ''An error occurred while communicating with the AI: Failed to parse structured response from AI.'') \<and>
   history (generate (example_env (Stream [] EndOfStream) (ContentResponse (Some [])) 1000)
            (example_session Optimize_Query (lit ''SELECT * FROM users'') []))
     = history (example_session Optimize_Query (lit ''SELECT * FROM users'') [])"
proof -
  let ?e = "example_env (Stream [] EndOfStream) (ContentResponse (Some [])) 1000"
  let ?s = "example_session Optimize_Query (lit ''SELECT * FROM users'') []"
  have t: "generateStructured_try ?e (structuredRequest (lit ''PostgreSQL'') (lit ''SELECT * FROM users'') [])
      = Inl (Error (lit ''Received an empty response from the AI.''))"
    by (simp add: generateStructured_try_def example_env_def)
  have g: "trim (userInput ?s) \<noteq> []" "\<not> loading ?s" "ai ?s" "selectedFeature ?s = Optimize_Query"
    by (simp_all add: example_session_def fresh_def trim_def lit_def isWhiteSpace_def)
  have sel: "selectedDb ?s = lit ''PostgreSQL''" "userInput ?s = lit ''SELECT * FROM users''"
      "schemaContext ?s = []"
    by (simp_all add: example_session_def fresh_def)
  from generate_structured_fail(1)[OF g, of ?e] t sel
  have "generate ?e ?s = ?s\<lparr>output' := [], optimizationResult := JNull,
        error := Some (displayMessage (Error (lit ''Failed to parse structured response from AI.''))),
        requests := requests ?s @ [structuredRequest (selectedDb ?s) (userInput ?s) (schemaContext ?s)]\<rparr>"
    by simp
  then show ?thesis using t
    by (simp add: generateStructured_def Let_def displayMessage_parse_failure)
qed

text \<open>
  C1, as the code has it: a successful generation puts one new entry in front of the
  history, and the feature decides its result fields. For Optimize Query the output is
  empty and optimizationResult is the value parsed from the non-empty response text;
  for every other feature optimizationResult is null and the output is the
  concatenation of the fragments of the stream, which is empty when every fragment is.
\<close>

theorem history_entry_result_fields:
  assumes "generation_succeeds e s"
  shows "\<exists>it. history (generate e s) = it # history s \<and>
     feature it = selectedFeature s \<and>
     (selectedFeature s = Optimize_Query \<longrightarrow>
        item_output it = [] \<and>
        (\<exists>text. text \<noteq> [] \<and>
           generateContent e (structuredRequest (selectedDb s) (userInput s) (schemaContext s))
             = ContentResponse (Some text) \<and>
           JSON_parse e text = Inr (item_optimizationResult it))) \<and>
     (selectedFeature s \<noteq> Optimize_Query \<longrightarrow>
        item_optimizationResult it = JNull \<and>
        (\<exists>chunks.
           generateContentStream e (streamRequest (Feature_str (selectedFeature s)) (selectedDb s)
              (userInput s) (schemaContext s)) = Stream chunks EndOfStream \<and>
           item_output it = concat chunks))"
proof -
  from generation_succeeds_cases[OF assms]
  have g: "trim (userInput s) \<noteq> []" "\<not> loading s" "ai s" and
    c: "if selectedFeature s = Optimize_Query
      then \<exists>text j. generateContent e (structuredRequest (selectedDb s) (userInput s) (schemaContext s))
                      = ContentResponse (Some text) \<and> text \<noteq> [] \<and> JSON_parse e text = Inr j
      else \<exists>chunks. generateContentStream e (streamRequest (Feature_str (selectedFeature s))
                      (selectedDb s) (userInput s) (schemaContext s)) = Stream chunks EndOfStream"
    by (auto split: if_splits)
  show ?thesis
  proof (cases "selectedFeature s = Optimize_Query")
    case True
    with c obtain payload j where t:
      "generateContent e (structuredRequest (selectedDb s) (userInput s) (schemaContext s))
         = ContentResponse (Some payload)" "payload \<noteq> []" "JSON_parse e payload = Inr j"
      by auto
    from generate_structured_ok(1)[OF g True t] True t show ?thesis
      by (simp add: history_saveHistoryToStorage)
  next
    case False
    with c obtain chunks where t:
      "generateContentStream e (streamRequest (Feature_str (selectedFeature s))
          (selectedDb s) (userInput s) (schemaContext s)) = Stream chunks EndOfStream"
      by auto
    from generate_stream_ok(1)[OF g False t] False t show ?thesis
      by (simp add: history_saveHistoryToStorage)
  qed
qed

text \<open>
  C1 as stated fails: Explain SQL with a stream that ends after no fragment is a
  successful generation whose entry has an empty output and a null optimizationResult.
\<close>

theorem history_entry_neither_populated:
  "generation_succeeds (example_env (Stream [] EndOfStream) (ContentResponse None) 1000)
      (example_session Explain_SQL (lit ''SELECT 1'') []) \<and>
   history (generate (example_env (Stream [] EndOfStream) (ContentResponse None) 1000)
      (example_session Explain_SQL (lit ''SELECT 1'') [])) =
     [\<lparr> feature = Explain_SQL, db = lit ''PostgreSQL'', item_userInput = lit ''SELECT 1'',
        item_schemaContext = [], item_uploadedFileName = [],
        item_output = [], item_optimizationResult = JNull, item_id = 1000 \<rparr>]"
proof -
  let ?e = "example_env (Stream [] EndOfStream) (ContentResponse None) 1000"
  let ?s = "example_session Explain_SQL (lit ''SELECT 1'') []"
  have g: "trim (userInput ?s) \<noteq> []" "\<not> loading ?s" "ai ?s" "selectedFeature ?s \<noteq> Optimize_Query"
    by (simp_all add: example_session_def fresh_def trim_def lit_def isWhiteSpace_def)
  have r: "generateContentStream ?e (streamRequest (Feature_str (selectedFeature ?s)) (selectedDb ?s)
            (userInput ?s) (schemaContext ?s)) = Stream [] EndOfStream"
    by (simp add: example_env_def)
  from generate_stream_ok[OF g r] show ?thesis
    by (simp add: history_saveHistoryToStorage example_session_def example_env_def fresh_def)
qed

theorem history_entry_result_fields_witness:
  "generation_succeeds
      (example_env (Stream [] EndOfStream)
         (ContentResponse (Some (lit ''{\"summary\":\"ok\",\"recommendations\":[],\"optimizedQuery\":\"SELECT 1\"}''))) 1000)
      (example_session Optimize_Query (lit ''SELECT 1'') []) \<and>
   (\<exists>it. history (generate
      (example_env (Stream [] EndOfStream)
         (ContentResponse (Some (lit ''{\"summary\":\"ok\",\"recommendations\":[],\"optimizedQuery\":\"SELECT 1\"}''))) 1000)
      (example_session Optimize_Query (lit ''SELECT 1'') [])) = [it] \<and>
      item_output it = [] \<and>
      item_optimizationResult it = OptimizationResult_json
         \<lparr> summary = lit ''ok'', recommendations = [], optimizedQuery = lit ''SELECT 1'' \<rparr>)"
proof -
  let ?t = "lit ''{\"summary\":\"ok\",\"recommendations\":[],\"optimizedQuery\":\"SELECT 1\"}''"
  let ?e = "example_env (Stream [] EndOfStream) (ContentResponse (Some ?t)) 1000"
  let ?s = "example_session Optimize_Query (lit ''SELECT 1'') []"
  have g: "trim (userInput ?s) \<noteq> []" "\<not> loading ?s" "ai ?s" "selectedFeature ?s = Optimize_Query"
    by (simp_all add: example_session_def fresh_def trim_def lit_def isWhiteSpace_def)
  have r: "generateContent ?e (structuredRequest (selectedDb ?s) (userInput ?s) (schemaContext ?s))
      = ContentResponse (Some ?t)"
    by (simp add: example_env_def)
  have n: "?t \<noteq> []" by (simp add: lit_def)
  have p: "JSON_parse ?e ?t = Inr (OptimizationResult_json
         \<lparr> summary = lit ''ok'', recommendations = [], optimizedQuery = lit ''SELECT 1'' \<rparr>)"
    by (simp add: example_env_def example_JSON_parse_def lit_def)
  have ok: "generation_succeeds ?e ?s" by (rule generate_structured_ok(2)[OF g r n p])
  have h: "history ?s = []" "selectedFeature ?s = Optimize_Query"
    by (simp_all add: example_session_def fresh_def)
  from history_entry_result_fields[OF ok] r p h ok show ?thesis
    by auto
qed

text \<open>
  C5, as the code has it: starting from an empty history, after a run of successful
  generations the history has one entry per generation, newest first (each further
  successful generation puts its entry in front of the list and leaves the rest as it
  was), and the id of each entry is the reading of the clock at its creation. So each
  id is strictly greater than the ids of all entries created before it whenever the
  readings of the clock increase strictly from one generation to the next.
\<close>

theorem history_after_generations:
  assumes "history s = []" and "all_succeed steps s"
  shows "length (history (generations steps s)) = length steps \<and>
         map item_userInput (history (generations steps s))
           = rev (map (\<lambda>st. form_userInput (fst st)) steps) \<and>
         map item_id (history (generations steps s))
           = rev (map (\<lambda>st. Date_now (snd st)) steps) \<and>
         (sorted_wrt (<) (map (\<lambda>st. Date_now (snd st)) steps) \<longrightarrow>
            sorted_wrt (>) (map item_id (history (generations steps s)))) \<and>
         (generation_succeeds e (fill fm (generations steps s)) \<longrightarrow>
            tl (history (generations (steps @ [(fm, e)]) s)) = history (generations steps s))"
proof -
  from generations_history[OF assms(2)] assms(1) obtain items where
    items: "history (generations steps s) = items" "length items = length steps"
      "map item_id items = rev (map (\<lambda>st. Date_now (snd st)) steps)"
      "map item_userInput items = rev (map (\<lambda>st. form_userInput (fst st)) steps)"
    by auto
  have s: "sorted_wrt (<) (map (\<lambda>st. Date_now (snd st)) steps) \<longrightarrow> sorted_wrt (>) (map item_id items)"
    by (simp add: items(3) sorted_wrt_rev)
  have p: "generation_succeeds e (fill fm (generations steps s)) \<longrightarrow>
            tl (history (generations (steps @ [(fm, e)]) s)) = history (generations steps s)"
  proof
    assume "generation_succeeds e (fill fm (generations steps s))"
    from generation_succeeds_prepends[OF this] show
      "tl (history (generations (steps @ [(fm, e)]) s)) = history (generations steps s)"
      by (auto simp: generations_append fill_fields)
  qed
  from items s p show ?thesis by simp
qed

theorem history_after_generations_witness:
  "history (fresh True None) = [] \<and>
   all_succeed
     [(example_form NL_to_SQL (lit ''list all users''),
       example_env (Stream [lit ''SELECT 1''] EndOfStream) (ContentResponse None) 1000),
      (example_form Explain_SQL (lit ''SELECT 1''),
       example_env (Stream [] EndOfStream) (ContentResponse None) 2000)]
     (fresh True None) \<and>
   map item_id (history (generations
     [(example_form NL_to_SQL (lit ''list all users''),
       example_env (Stream [lit ''SELECT 1''] EndOfStream) (ContentResponse None) 1000),
      (example_form Explain_SQL (lit ''SELECT 1''),
       example_env (Stream [] EndOfStream) (ContentResponse None) 2000)]
     (fresh True None))) = [2000, 1000] \<and>
   sorted_wrt (<) [1000, 2000 :: int] \<and>
   sorted_wrt (>) (map item_id (history (generations
     [(example_form NL_to_SQL (lit ''list all users''),
       example_env (Stream [lit ''SELECT 1''] EndOfStream) (ContentResponse None) 1000),
      (example_form Explain_SQL (lit ''SELECT 1''),
       example_env (Stream [] EndOfStream) (ContentResponse None) 2000)]
     (fresh True None))))"
proof -
  have h: "history (fresh True None) = []" by (simp add: fresh_def)
  from history_after_generations[OF h example_two_generations[of 1000 2000]] h
    example_two_generations[of 1000 2000]
  show ?thesis by (simp add: example_env_def)
qed

text \<open>
  C5 as stated fails: the id is Date.now(), and nothing in the code makes it grow.
  When the clock reads 2000 at the first generation and 1000 at the second (a clock set
  back in between), the newer entry has the smaller id.
\<close>

theorem history_ids_not_increasing:
  "history (fresh True None) = [] \<and>
   all_succeed
     [(example_form NL_to_SQL (lit ''list all users''),
       example_env (Stream [lit ''SELECT 1''] EndOfStream) (ContentResponse None) 2000),
      (example_form Explain_SQL (lit ''SELECT 1''),
       example_env (Stream [] EndOfStream) (ContentResponse None) 1000)]
     (fresh True None) \<and>
   map item_id (history (generations
     [(example_form NL_to_SQL (lit ''list all users''),
       example_env (Stream [lit ''SELECT 1''] EndOfStream) (ContentResponse None) 2000),
      (example_form Explain_SQL (lit ''SELECT 1''),
       example_env (Stream [] EndOfStream) (ContentResponse None) 1000)]
     (fresh True None))) = [1000, 2000]"
proof -
  have h: "history (fresh True None) = []" by (simp add: fresh_def)
  from generations_history[OF example_two_generations[of 2000 1000]] h
    example_two_generations[of 2000 1000]
  show ?thesis by (auto simp: example_env_def)
qed

text \<open>
  C3, as the code has it: for a schema context that is non-empty after trimming and
  every feature but Design Schema, the user prompt starts with the context block: the
  instruction not to invent tables, columns or data structures outside the context,
  then the raw context between code fences. The system instruction is never prefixed:
  it is the one built for the empty context. For Design Schema the context is not used
  at all.
\<close>

theorem context_block_prefixes_user_prompt:
  assumes "trim ctx \<noteq> []"
  shows "(f \<noteq> Design_Schema \<longrightarrow>
            prefix (lit ''You MUST use the following provided context. Do not invent tables, columns, or data structures that are not in this context.\<newline>\<newline>CONTEXT:\<newline>```\<newline>'' @ ctx @ lit ''\<newline>```\<newline>\<newline>'')
                   (userPrompt (getPrompts (Feature_str f) d inp ctx))) \<and>
         systemInstruction (getPrompts (Feature_str f) d inp ctx)
           = systemInstruction (getPrompts (Feature_str f) d inp []) \<and>
         getPrompts (Feature_str Design_Schema) d inp ctx
           = getPrompts (Feature_str Design_Schema) d inp []"
proof -
  have "f \<noteq> Design_Schema \<longrightarrow>
            prefix (lit ''You MUST use the following provided context. Do not invent tables, columns, or data structures that are not in this context.\<newline>\<newline>CONTEXT:\<newline>```\<newline>'' @ ctx @ lit ''\<newline>```\<newline>\<newline>'')
                   (userPrompt (getPrompts (Feature_str f) d inp ctx))"
    by (cases f) (simp_all add: userPrompt_getPrompts contextPreamble_context[OF assms])
  moreover have "getPrompts (Feature_str Design_Schema) d inp ctx
           = getPrompts (Feature_str Design_Schema) d inp []"
    by (simp add: getPrompts_def feature_literals_distinct)
  ultimately show ?thesis using systemInstruction_getPrompts[of f d inp ctx "[]"] by blast
qed

theorem context_block_prefixes_user_prompt_witness:
  "trim (lit ''CREATE TABLE users (id int);'') \<noteq> [] \<and>
   Explain_SQL \<noteq> Design_Schema \<and>
   prefix (lit ''You MUST use the following provided context. Do not invent tables, columns, or data structures that are not in this context.\<newline>\<newline>CONTEXT:\<newline>```\<newline>'' @ lit ''CREATE TABLE users (id int);'' @ lit ''\<newline>```\<newline>\<newline>'')
     (userPrompt (getPrompts (Feature_str Explain_SQL) (lit ''MySQL'') (lit ''SELECT 1'')
        (lit ''CREATE TABLE users (id int);'')))"
proof -
  have t: "trim (lit ''CREATE TABLE users (id int);'') \<noteq> []"
    by (simp add: trim_def lit_def isWhiteSpace_def)
  from context_block_prefixes_user_prompt[OF t, of Explain_SQL "lit ''MySQL''" "lit ''SELECT 1''"] t
  show ?thesis by simp
qed

text \<open>
  C3 as stated fails: for NL-to-SQL with a non-empty context the system instruction
  neither starts with the context block nor contains the context text.
\<close>

theorem system_instruction_has_no_context_block:
  "trim (lit ''CREATE TABLE users (id int);'') \<noteq> [] \<and>
   \<not> prefix (contextPreamble (lit ''CREATE TABLE users (id int);''))
       (systemInstruction (getPrompts (Feature_str NL_to_SQL) (lit ''PostgreSQL'')
          (lit ''list all users'') (lit ''CREATE TABLE users (id int);''))) \<and>
   \<not> includes_js
       (systemInstruction (getPrompts (Feature_str NL_to_SQL) (lit ''PostgreSQL'')
          (lit ''list all users'') (lit ''CREATE TABLE users (id int);'')))
       (lit ''CREATE TABLE users (id int);'')"
  by (simp add: getPrompts_def contextPreamble_def trim_def isWhiteSpace_def includes_js_def
      lit_def sublist_code)

text \<open>
  C4, as the code has it: for an empty or whitespace-only schema context the context
  block is empty and the user prompt is the template of the feature around the dialect
  and the input; for a context that is non-empty after trimming and every feature but
  Design Schema the user prompt contains the context text as a substring; the prompt of
  Design Schema is its template whatever the context is.
\<close>

theorem user_prompt_context:
  "(list_all isWhiteSpace ctx \<longrightarrow>
      contextPreamble ctx = [] \<and>
      userPrompt (getPrompts (Feature_str f) d inp ctx) =
        (case f of
           NL_to_SQL \<Rightarrow> lit ''Convert the following request into a '' @ d @ lit '' SQL query: \"'' @ inp @ lit ''\"''
         | Optimize_Query \<Rightarrow> lit ''Please analyze and suggest optimizations for this '' @ d @ lit '' SQL query, then return the results in the required JSON format:\<newline>\<newline>'' @ inp
         | Design_Schema \<Rightarrow> lit ''Design a '' @ d @ lit '' schema for the following requirements: \"'' @ inp @ lit ''\"''
         | Explain_SQL \<Rightarrow> lit ''Please explain this '' @ d @ lit '' SQL query step-by-step:\<newline>\<newline>'' @ inp
         | Analyze_Suggest \<Rightarrow> lit ''Based on the provided context, please analyze and provide suggestions for the following request: \"'' @ inp @ lit ''\"'')) \<and>
   (trim ctx \<noteq> [] \<and> f \<noteq> Design_Schema \<longrightarrow>
      includes_js (userPrompt (getPrompts (Feature_str f) d inp ctx)) ctx) \<and>
   userPrompt (getPrompts (Feature_str Design_Schema) d inp ctx) =
     lit ''Design a '' @ d @ lit '' schema for the following requirements: \"'' @ inp @ lit ''\"''"
proof -
  have a: "list_all isWhiteSpace ctx \<longrightarrow>
      contextPreamble ctx = [] \<and>
      userPrompt (getPrompts (Feature_str f) d inp ctx) =
        (case f of
           NL_to_SQL \<Rightarrow> lit ''Convert the following request into a '' @ d @ lit '' SQL query: \"'' @ inp @ lit ''\"''
         | Optimize_Query \<Rightarrow> lit ''Please analyze and suggest optimizations for this '' @ d @ lit '' SQL query, then return the results in the required JSON format:\<newline>\<newline>'' @ inp
         | Design_Schema \<Rightarrow> lit ''Design a '' @ d @ lit '' schema for the following requirements: \"'' @ inp @ lit ''\"''
         | Explain_SQL \<Rightarrow> lit ''Please explain this '' @ d @ lit '' SQL query step-by-step:\<newline>\<newline>'' @ inp
         | Analyze_Suggest \<Rightarrow> lit ''Based on the provided context, please analyze and provide suggestions for the following request: \"'' @ inp @ lit ''\"'')"
  proof
    assume "list_all isWhiteSpace ctx"
    then have b: "contextPreamble ctx = []" by (rule contextPreamble_blank)
    show "contextPreamble ctx = [] \<and>
      userPrompt (getPrompts (Feature_str f) d inp ctx) =
        (case f of
           NL_to_SQL \<Rightarrow> lit ''Convert the following request into a '' @ d @ lit '' SQL query: \"'' @ inp @ lit ''\"''
         | Optimize_Query \<Rightarrow> lit ''Please analyze and suggest optimizations for this '' @ d @ lit '' SQL query, then return the results in the required JSON format:\<newline>\<newline>'' @ inp
         | Design_Schema \<Rightarrow> lit ''Design a '' @ d @ lit '' schema for the following requirements: \"'' @ inp @ lit ''\"''
         | Explain_SQL \<Rightarrow> lit ''Please explain this '' @ d @ lit '' SQL query step-by-step:\<newline>\<newline>'' @ inp
         | Analyze_Suggest \<Rightarrow> lit ''Based on the provided context, please analyze and provide suggestions for the following request: \"'' @ inp @ lit ''\"'')"
      by (cases f) (simp_all add: userPrompt_getPrompts b)
  qed
  have c: "trim ctx \<noteq> [] \<and> f \<noteq> Design_Schema \<longrightarrow>
      includes_js (userPrompt (getPrompts (Feature_str f) d inp ctx)) ctx"
  proof
    assume h: "trim ctx \<noteq> [] \<and> f \<noteq> Design_Schema"
    then have p: "contextPreamble ctx =
       lit ''You MUST use the following provided context. Do not invent tables, columns, or data structures that are not in this context.\<newline>\<newline>CONTEXT:\<newline>```\<newline>'' @ ctx @ lit ''\<newline>```\<newline>\<newline>''"
      by (simp add: contextPreamble_context)
    from h show "includes_js (userPrompt (getPrompts (Feature_str f) d inp ctx)) ctx"
      by (cases f) (simp_all add: userPrompt_getPrompts p includes_js_middle)
  qed
  from a c userPrompt_getPrompts(3)[of d inp ctx] show ?thesis by simp
qed

theorem user_prompt_context_witness:
  "list_all isWhiteSpace (lit ''   '') \<and>
   userPrompt (getPrompts (Feature_str Explain_SQL) (lit ''MySQL'') (lit ''SELECT 1'') (lit ''   ''))
     = lit ''Please explain this '' @ lit ''MySQL'' @ lit '' SQL query step-by-step:\<newline>\<newline>'' @ lit ''SELECT 1'' \<and>
   trim (lit ''CREATE TABLE users (id int);'') \<noteq> [] \<and> Explain_SQL \<noteq> Design_Schema \<and>
   includes_js
     (userPrompt (getPrompts (Feature_str Explain_SQL) (lit ''MySQL'') (lit ''SELECT 1'')
        (lit ''CREATE TABLE users (id int);'')))
     (lit ''CREATE TABLE users (id int);'')"
proof -
  have w: "list_all isWhiteSpace (lit ''   '')" by (simp add: lit_def isWhiteSpace_def)
  have t: "trim (lit ''CREATE TABLE users (id int);'') \<noteq> []"
    by (simp add: trim_def lit_def isWhiteSpace_def)
  from user_prompt_context[of "lit ''   ''" Explain_SQL "lit ''MySQL''" "lit ''SELECT 1''"]
    user_prompt_context[of "lit ''CREATE TABLE users (id int);''" Explain_SQL "lit ''MySQL''" "lit ''SELECT 1''"]
    w t
  show ?thesis by simp
qed

text \<open>
  C4 as stated fails: for Design Schema with a non-empty context the user prompt does
  not contain the context text.
\<close>

theorem design_schema_prompt_omits_context:
  "trim (lit ''CREATE TABLE users (id int);'') \<noteq> [] \<and>
   \<not> includes_js
       (userPrompt (getPrompts (Feature_str Design_Schema) (lit ''PostgreSQL'')
          (lit ''a blog with posts'') (lit ''CREATE TABLE users (id int);'')))
       (lit ''CREATE TABLE users (id int);'')"
proof -
  have p: "userPrompt (getPrompts (Feature_str Design_Schema) (lit ''PostgreSQL'')
          (lit ''a blog with posts'') (lit ''CREATE TABLE users (id int);'')) =
      lit ''Design a '' @ lit ''PostgreSQL'' @ lit '' schema for the following requirements: \"'' @
      lit ''a blog with posts'' @ lit ''\"''"
    by (simp add: userPrompt_getPrompts)
  show ?thesis unfolding p
    by (simp add: trim_def isWhiteSpace_def includes_js_def lit_def sublist_code)
qed

end
